theory Spec2Isabelle
  imports Complex_Main
begin

section \<open>Numbers and data of src/utils/BallPhysics.ts\<close>

text \<open>
  A TypeScript \<open>number\<close> is modelled as a real: rounding, overflow and signed zeros of
  IEEE doubles are not modelled. The source inspects the non-finite values of a number in
  one place only, \<open>isFinite(angleInDegrees)\<close>; that input is a \<open>jsnumber\<close>, which has
  the three non-finite values beside the finite ones. Every other number of a request is
  a real, hence finite: a request with the force, a coordinate or a table extent NaN or
  infinite is not a value of the model, and no statement below is about it.
\<close>

datatype jsnumber = Finite real | PosInfinity | NegInfinity | NaN

fun isFinite :: "jsnumber \<Rightarrow> bool" where
  "isFinite (Finite r) = True"
| "isFinite PosInfinity = False"
| "isFinite NegInfinity = False"
| "isFinite NaN = False"

text \<open>
  \<open>Number.MAX_VALUE\<close>, the largest finite double. The simulator converts the angle to
  radians with \<open>(angleInDegrees * Math.PI) / 180\<close>. On doubles the product overflows
  to an infinite number when its magnitude exceeds \<open>MAX_VALUE\<close>, for the finite angle
  \<open>1e308\<close> say, and the cosine and sine of an infinite number are NaN: every position
  computed from them is NaN. \<open>noRadiansOverflow\<close> holds of the angles whose product
  stays within the doubles; for an angle that is not finite the validation returns
  before the conversion, and nothing overflows.
\<close>

definition MAX_VALUE :: real where
  "MAX_VALUE = (2 - 1 / 2 ^ 52) * 2 ^ 1023"

fun noRadiansOverflow :: "jsnumber \<Rightarrow> bool" where
  "noRadiansOverflow (Finite angle) \<longleftrightarrow> \<bar>angle * pi\<bar> \<le> MAX_VALUE"
| "noRadiansOverflow PosInfinity \<longleftrightarrow> True"
| "noRadiansOverflow NegInfinity \<longleftrightarrow> True"
| "noRadiansOverflow NaN \<longleftrightarrow> True"

text \<open>
  \<open>interface PredictedPathParams\<close>. The optional \<open>maxBounces\<close> is \<open>None\<close> when the
  caller leaves it out. It is a bound on the integer counter \<open>bounces\<close> and is taken
  as an integer of either sign.
\<close>

record PredictedPathParams =
  x :: real
  y :: real
  angleInDegrees :: jsnumber
  force :: real
  tableWidth :: real
  tableHeight :: real
  maxBounces :: "int option"

record Point =
  x :: real
  y :: real

text \<open>The object \<open>{ vx, vy }\<close> handed to and returned by the collision resolver.\<close>

record Velocity =
  vx :: real
  vy :: real

record PhysicsConfig =
  ballRadius :: real
  friction :: real
  minVelocity :: real
  timeStep :: real
  maxPoints :: nat
  velocityScale :: real

definition DEFAULT_CONFIG :: PhysicsConfig where
  "DEFAULT_CONFIG =
     \<lparr>ballRadius = 8, friction = 985 / 1000, minVelocity = 3 / 10, timeStep = 8 / 100,
      maxPoints = 300, velocityScale = 15 / 100\<rparr>"

text \<open>
  The file holds a second copy of the simulator, word for word the same apart from its
  configuration, whose ball radius is 4.
\<close>

definition DEFAULT_CONFIG_small :: PhysicsConfig where
  "DEFAULT_CONFIG_small = DEFAULT_CONFIG\<lparr>ballRadius := 4\<rparr>"

text \<open>The object returned by \<open>checkWallCollisions\<close>.\<close>

record Collision =
  hasCollision :: bool
  collisionPoint :: Point
  newVelocity :: Velocity

section \<open>The wall collision resolver\<close>

text \<open>
  \<open>checkWallCollisions\<close>: two independent \<open>if / else if\<close> chains, the first on the x
  axis (left wall before right wall), the second on the y axis (top before bottom). Each
  branch that fires overwrites one coordinate of the copy of \<open>nextPos\<close>, one component
  of the copy of \<open>velocity\<close>, and sets the flag.
\<close>

definition checkWallCollisions ::
  "Point \<Rightarrow> Point \<Rightarrow> Velocity \<Rightarrow> real \<Rightarrow> real \<Rightarrow> real \<Rightarrow> Collision" where
  "checkWallCollisions currentPos nextPos velocity width height radius =
     (let c0 = \<lparr>hasCollision = False, collisionPoint = nextPos, newVelocity = velocity\<rparr>;
          c1 = (if x nextPos - radius \<le> 0 then
                  \<lparr>hasCollision = True,
                   collisionPoint = (collisionPoint c0)\<lparr>x := radius\<rparr>,
                   newVelocity = (newVelocity c0)\<lparr>vx := \<bar>vx velocity\<bar>\<rparr>\<rparr>
                else if x nextPos + radius \<ge> width then
                  \<lparr>hasCollision = True,
                   collisionPoint = (collisionPoint c0)\<lparr>x := width - radius\<rparr>,
                   newVelocity = (newVelocity c0)\<lparr>vx := - \<bar>vx velocity\<bar>\<rparr>\<rparr>
                else c0);
          c2 = (if y nextPos - radius \<le> 0 then
                  \<lparr>hasCollision = True,
                   collisionPoint = (collisionPoint c1)\<lparr>y := radius\<rparr>,
                   newVelocity = (newVelocity c1)\<lparr>vy := \<bar>vy velocity\<bar>\<rparr>\<rparr>
                else if y nextPos + radius \<ge> height then
                  \<lparr>hasCollision = True,
                   collisionPoint = (collisionPoint c1)\<lparr>y := height - radius\<rparr>,
                   newVelocity = (newVelocity c1)\<lparr>vy := - \<bar>vy velocity\<bar>\<rparr>\<rparr>
                else c1)
      in c2)"

section \<open>The trajectory simulator\<close>

text \<open>
  The locals of \<open>getPredictedPath\<close> that the loop reads and writes. The two locals
  \<open>vx\<close> and \<open>vy\<close> are kept as one \<open>Velocity\<close>, the shape in which the loop hands
  them to the resolver.
\<close>

record SimState =
  currentX :: real
  currentY :: real
  vel :: Velocity
  bounces :: int
  path :: "Point list"

definition bounceEnergyLoss :: real where
  "bounceEnergyLoss = 92 / 100"

text \<open>
  The position and velocity part of one loop iteration, up to and including the
  friction step: everything between the loop head and the speed test.
\<close>

definition advance :: "PhysicsConfig \<Rightarrow> real \<Rightarrow> real \<Rightarrow> SimState \<Rightarrow> SimState" where
  "advance config width height s =
     (let nextX = currentX s + vx (vel s) * timeStep config;
          nextY = currentY s + vy (vel s) * timeStep config;
          collision = checkWallCollisions
                        \<lparr>x = currentX s, y = currentY s\<rparr> \<lparr>x = nextX, y = nextY\<rparr> (vel s)
                        width height (ballRadius config);
          s1 = (if hasCollision collision then
                  s\<lparr>currentX := x (collisionPoint collision),
                    currentY := y (collisionPoint collision),
                    vel := \<lparr>vx = vx (newVelocity collision) * bounceEnergyLoss,
                            vy = vy (newVelocity collision) * bounceEnergyLoss\<rparr>,
                    bounces := bounces s + 1\<rparr>
                else s\<lparr>currentX := nextX, currentY := nextY\<rparr>)
      in s1\<lparr>vel := \<lparr>vx = vx (vel s1) * friction config,
                      vy = vy (vel s1) * friction config\<rparr>\<rparr>)"

text \<open>The speed computed by the loop: \<open>Math.sqrt(vx * vx + vy * vy)\<close>.\<close>

definition speed :: "Velocity \<Rightarrow> real" where
  "speed v = sqrt (vx v * vx v + vy v * vy v)"

text \<open>
  One whole iteration of the loop body. The flag is True when the iteration leaves the
  loop through \<open>break\<close>; otherwise the current position has been pushed on the path.
\<close>

definition loopBody :: "PhysicsConfig \<Rightarrow> real \<Rightarrow> real \<Rightarrow> SimState \<Rightarrow> SimState \<times> bool" where
  "loopBody config width height s =
     (let s2 = advance config width height s;
          velocity = speed (vel s2)
      in if velocity < minVelocity config then (s2, True)
         else (s2\<lparr>path := path s2 @ [\<lparr>x = currentX s2, y = currentY s2\<rparr>]\<rparr>, False))"

text \<open>
  The \<open>while\<close> loop. Every iteration that does not break makes the path one point
  longer, so the distance of the path length from \<open>maxPoints\<close> decreases.
\<close>

function simulate :: "PhysicsConfig \<Rightarrow> real \<Rightarrow> real \<Rightarrow> int \<Rightarrow> SimState \<Rightarrow> SimState" where
  "simulate config width height bounceLimit s =
     (if bounces s < bounceLimit \<and> length (path s) < maxPoints config then
        (case loopBody config width height s of
           (s', stop) \<Rightarrow> if stop then s' else simulate config width height bounceLimit s')
      else s)"
  by pat_completeness auto
termination
  apply (relation "measure (\<lambda>(config, width, height, bounceLimit, s). maxPoints config - length (path s))")
   apply simp
  apply (auto simp: loopBody_def advance_def Let_def split: if_splits)
  done

declare simulate.simps [simp del]

text \<open>
  The state in which the loop is entered: the initial velocity from angle and force, the
  launch position, no bounce yet, and the launch position already on the path. The
  velocity is the source's for an angle with \<open>noRadiansOverflow\<close>; for a larger
  finite angle the source's velocity is NaN, which this state cannot hold.
\<close>

definition launchState :: "PhysicsConfig \<Rightarrow> PredictedPathParams \<Rightarrow> real \<Rightarrow> SimState" where
  "launchState config p angle =
     (let angleInRadians = (angle * pi) / 180
      in \<lparr>currentX = PredictedPathParams.x p,
          currentY = PredictedPathParams.y p,
          vel = \<lparr>vx = cos angleInRadians * force p * velocityScale config,
                 vy = sin angleInRadians * force p * velocityScale config\<rparr>,
          bounces = 0,
          path = [\<lparr>x = PredictedPathParams.x p, y = PredictedPathParams.y p\<rparr>]\<rparr>)"

text \<open>The default of the destructured parameter: \<open>maxBounces = 10\<close>.\<close>

definition bounceBudget :: "PredictedPathParams \<Rightarrow> int" where
  "bounceBudget p = (case maxBounces p of None \<Rightarrow> 10 | Some m \<Rightarrow> m)"

text \<open>The state in which the loop is left, for a request that passed validation.\<close>

definition finalState :: "PhysicsConfig \<Rightarrow> PredictedPathParams \<Rightarrow> real \<Rightarrow> SimState" where
  "finalState config p angle =
     simulate config (tableWidth p) (tableHeight p) (bounceBudget p) (launchState config p angle)"

text \<open>
  \<open>getPredictedPath\<close>. After the validation the angle is finite; the last case cannot
  be reached.
\<close>

definition getPredictedPath :: "PredictedPathParams \<Rightarrow> Point list" where
  "getPredictedPath p =
     (if force p \<le> 0 \<or> \<not> isFinite (angleInDegrees p) then []
      else (let config = DEFAULT_CONFIG
            in case angleInDegrees p of
                 Finite angle \<Rightarrow> path (finalState config p angle)
               | _ \<Rightarrow> []))"

text \<open>The second copy of the function, over the configuration with the smaller ball.\<close>

definition getPredictedPath_small :: "PredictedPathParams \<Rightarrow> Point list" where
  "getPredictedPath_small p =
     (if force p \<le> 0 \<or> \<not> isFinite (angleInDegrees p) then []
      else (let config = DEFAULT_CONFIG_small
            in case angleInDegrees p of
                 Finite angle \<Rightarrow> path (finalState config p angle)
               | _ \<Rightarrow> []))"

text \<open>
  The two reasons for leaving the loop other than the bounce budget, read at a loop head:
  the path has reached \<open>maxPoints\<close>, or the speed test of the iteration fires.
\<close>

definition stoppedByDecayOrCap :: "PhysicsConfig \<Rightarrow> real \<Rightarrow> real \<Rightarrow> SimState \<Rightarrow> bool" where
  "stoppedByDecayOrCap config width height s \<longleftrightarrow>
     maxPoints config \<le> length (path s) \<or>
     speed (vel (advance config width height s)) < minVelocity config"

text \<open>The containment property of a point: the ball's centre is on the playing surface.\<close>

definition onSurface :: "real \<Rightarrow> real \<Rightarrow> real \<Rightarrow> Point \<Rightarrow> bool" where
  "onSurface radius width height pt \<longleftrightarrow>
     radius \<le> x pt \<and> x pt \<le> width - radius \<and> radius \<le> y pt \<and> y pt \<le> height - radius"

section \<open>Geometry helpers and their legacy versions\<close>

text \<open>
  \<open>Math.atan2(y, x)\<close> on reals: the angle of the point \<open>(x, y)\<close> in \<open>(-\<pi>, \<pi>]\<close>,
  and 0 at the origin.
\<close>

definition atan2 :: "real \<Rightarrow> real \<Rightarrow> real" where
  "atan2 b a =
     (if 0 < a then arctan (b / a)
      else if a < 0 then (if 0 \<le> b then arctan (b / a) + pi else arctan (b / a) - pi)
      else if 0 < b then pi / 2
      else if b < 0 then - (pi / 2)
      else 0)"

text \<open>
  The remainder operator \<open>%\<close> of JavaScript on reals, for a divisor other than 0: the
  quotient is truncated towards zero, so the result has the sign of the dividend.
\<close>

definition jsRemainder :: "real \<Rightarrow> real \<Rightarrow> real" where
  "jsRemainder a b =
     a - b * of_int (if 0 \<le> a / b then \<lfloor>a / b\<rfloor> else \<lceil>a / b\<rceil>)"

definition calculateAngleBetweenPoints :: "Point \<Rightarrow> Point \<Rightarrow> real" where
  "calculateAngleBetweenPoints point1 point2 =
     (let deltaX = x point2 - x point1;
          deltaY = y point2 - y point1;
          angleRad = atan2 deltaY deltaX
      in (angleRad * 180) / pi)"

definition calculateDistance :: "Point \<Rightarrow> Point \<Rightarrow> real" where
  "calculateDistance point1 point2 =
     (let deltaX = x point2 - x point1;
          deltaY = y point2 - y point1
      in sqrt (deltaX * deltaX + deltaY * deltaY))"

text \<open>
  \<open>normalizeAngle\<close> adds 360 to a negative remainder. On doubles that sum is rounded,
  and for a remainder as small as \<open>-2^-70\<close> it is exactly 360; no bound on the result
  is stated here, and the function is only run on the angle -1.
\<close>

definition normalizeAngle :: "real \<Rightarrow> real" where
  "normalizeAngle degrees =
     (let normalized = jsRemainder degrees 360
      in if normalized < 0 then normalized + 360 else normalized)"

definition calculateAngle :: "Point \<Rightarrow> Point \<Rightarrow> real" where
  "calculateAngle point1 point2 = atan2 (y point2 - y point1) (x point2 - x point1)"

definition calculateDistanceOld :: "Point \<Rightarrow> Point \<Rightarrow> real" where
  "calculateDistanceOld point1 point2 =
     (let dx = x point2 - x point1;
          dy = y point2 - y point1
      in sqrt (dx * dx + dy * dy))"

text \<open>
  The two \<open>while\<close> loops of \<open>normalizeAngleOld\<close>. A loop that does not return is
  the value \<open>None\<close>: on doubles \<open>angle += 2 * Math.PI\<close> leaves an angle of large
  magnitude (or an infinite one) unchanged and the loop never ends, so nothing is proved
  here about the loops returning; they are only run on the angle -1.
\<close>

partial_function (option) raiseAngle :: "real \<Rightarrow> real option" where
  "raiseAngle angle = (if angle < 0 then raiseAngle (angle + 2 * pi) else Some angle)"

partial_function (option) lowerAngle :: "real \<Rightarrow> real option" where
  "lowerAngle angle = (if angle \<ge> 2 * pi then lowerAngle (angle - 2 * pi) else Some angle)"

definition normalizeAngleOld :: "real \<Rightarrow> real option" where
  "normalizeAngleOld angle =
     (case raiseAngle angle of None \<Rightarrow> None | Some raised \<Rightarrow> lowerAngle raised)"

section \<open>A sample request\<close>

text \<open>
  The request the application's screen makes on its smallest table, 300 by 150: the cue
  ball at a quarter of the width and half of the height, a budget of 8 bounces; here with
  the angle 0 degrees and the force 50.
\<close>

definition scenarioRequest :: PredictedPathParams where
  "scenarioRequest =
     \<lparr>PredictedPathParams.x = 75, PredictedPathParams.y = 75, angleInDegrees = Finite 0,
      force = 50, tableWidth = 300, tableHeight = 150, maxBounces = Some 8\<rparr>"

text \<open>
  Two shots along the x axis at the right wall of the same table. The first starts half
  a unit before the contact position \<open>x = 292\<close> with force 50 and a budget of one
  bounce. The second starts a hundredth of a unit before it with force 2.2, so weak that
  the bounce brings the speed below \<open>minVelocity\<close>.
\<close>

definition wallShotRequest :: PredictedPathParams where
  "wallShotRequest =
     \<lparr>PredictedPathParams.x = 583 / 2, PredictedPathParams.y = 75, angleInDegrees = Finite 0,
      force = 50, tableWidth = 300, tableHeight = 150, maxBounces = Some 1\<rparr>"

definition nearWallRequest :: PredictedPathParams where
  "nearWallRequest =
     \<lparr>PredictedPathParams.x = 29199 / 100, PredictedPathParams.y = 75, angleInDegrees = Finite 0,
      force = 11 / 5, tableWidth = 300, tableHeight = 150, maxBounces = Some 8\<rparr>"

section \<open>Properties of the collision resolver\<close>

text \<open>Each field of the resolver's result, read off the two branch chains.\<close>

lemma checkWall_fields:
  "hasCollision (checkWallCollisions currentPos nextPos velocity width height radius) =
     (x nextPos - radius \<le> 0 \<or> x nextPos + radius \<ge> width \<or>
      y nextPos - radius \<le> 0 \<or> y nextPos + radius \<ge> height)"
  "x (collisionPoint (checkWallCollisions currentPos nextPos velocity width height radius)) =
     (if x nextPos - radius \<le> 0 then radius
      else if x nextPos + radius \<ge> width then width - radius else x nextPos)"
  "y (collisionPoint (checkWallCollisions currentPos nextPos velocity width height radius)) =
     (if y nextPos - radius \<le> 0 then radius
      else if y nextPos + radius \<ge> height then height - radius else y nextPos)"
  "vx (newVelocity (checkWallCollisions currentPos nextPos velocity width height radius)) =
     (if x nextPos - radius \<le> 0 then \<bar>vx velocity\<bar>
      else if x nextPos + radius \<ge> width then - \<bar>vx velocity\<bar> else vx velocity)"
  "vy (newVelocity (checkWallCollisions currentPos nextPos velocity width height radius)) =
     (if y nextPos - radius \<le> 0 then \<bar>vy velocity\<bar>
      else if y nextPos + radius \<ge> height then - \<bar>vy velocity\<bar> else vy velocity)"
  by (simp_all add: checkWallCollisions_def Let_def)

text \<open>
  Claim C1. For every call of \<open>checkWallCollisions\<close>: when none of the four boundary
  conditions holds the result is the proposed point and the given velocity with the flag
  False. When the left condition holds, x is \<open>radius\<close> and vx is \<open>|vx|\<close>; when the
  right one holds (the left one, tested first, not holding), x is \<open>width - radius\<close> and
  vx is \<open>-|vx|\<close>; the same on y and vy for top and bottom. An axis whose conditions
  both fail keeps its coordinate and its velocity component. The magnitude of each
  velocity component is never changed. The conditions of the two axes are tested
  independently, so both clamps occur in one call when a condition holds on each axis.
\<close>

theorem checkWallCollisions_contract:
  fixes currentPos nextPos :: Point and velocity :: Velocity and width height radius :: real
  shows
  "(\<not> x nextPos - radius \<le> 0 \<and> \<not> x nextPos + radius \<ge> width \<and>
    \<not> y nextPos - radius \<le> 0 \<and> \<not> y nextPos + radius \<ge> height \<longrightarrow>
      checkWallCollisions currentPos nextPos velocity width height radius =
        \<lparr>hasCollision = False, collisionPoint = nextPos, newVelocity = velocity\<rparr>) \<and>
   (x nextPos - radius \<le> 0 \<longrightarrow>
      hasCollision (checkWallCollisions currentPos nextPos velocity width height radius) \<and>
      x (collisionPoint (checkWallCollisions currentPos nextPos velocity width height radius)) = radius \<and>
      vx (newVelocity (checkWallCollisions currentPos nextPos velocity width height radius)) = \<bar>vx velocity\<bar>) \<and>
   (\<not> x nextPos - radius \<le> 0 \<and> x nextPos + radius \<ge> width \<longrightarrow>
      hasCollision (checkWallCollisions currentPos nextPos velocity width height radius) \<and>
      x (collisionPoint (checkWallCollisions currentPos nextPos velocity width height radius)) = width - radius \<and>
      vx (newVelocity (checkWallCollisions currentPos nextPos velocity width height radius)) = - \<bar>vx velocity\<bar>) \<and>
   (y nextPos - radius \<le> 0 \<longrightarrow>
      hasCollision (checkWallCollisions currentPos nextPos velocity width height radius) \<and>
      y (collisionPoint (checkWallCollisions currentPos nextPos velocity width height radius)) = radius \<and>
      vy (newVelocity (checkWallCollisions currentPos nextPos velocity width height radius)) = \<bar>vy velocity\<bar>) \<and>
   (\<not> y nextPos - radius \<le> 0 \<and> y nextPos + radius \<ge> height \<longrightarrow>
      hasCollision (checkWallCollisions currentPos nextPos velocity width height radius) \<and>
      y (collisionPoint (checkWallCollisions currentPos nextPos velocity width height radius)) = height - radius \<and>
      vy (newVelocity (checkWallCollisions currentPos nextPos velocity width height radius)) = - \<bar>vy velocity\<bar>) \<and>
   (\<not> x nextPos - radius \<le> 0 \<and> \<not> x nextPos + radius \<ge> width \<longrightarrow>
      x (collisionPoint (checkWallCollisions currentPos nextPos velocity width height radius)) = x nextPos \<and>
      vx (newVelocity (checkWallCollisions currentPos nextPos velocity width height radius)) = vx velocity) \<and>
   (\<not> y nextPos - radius \<le> 0 \<and> \<not> y nextPos + radius \<ge> height \<longrightarrow>
      y (collisionPoint (checkWallCollisions currentPos nextPos velocity width height radius)) = y nextPos \<and>
      vy (newVelocity (checkWallCollisions currentPos nextPos velocity width height radius)) = vy velocity) \<and>
   \<bar>vx (newVelocity (checkWallCollisions currentPos nextPos velocity width height radius))\<bar> = \<bar>vx velocity\<bar> \<and>
   \<bar>vy (newVelocity (checkWallCollisions currentPos nextPos velocity width height radius))\<bar> = \<bar>vy velocity\<bar> \<and>
   ((x nextPos - radius \<le> 0 \<or> x nextPos + radius \<ge> width) \<and>
    (y nextPos - radius \<le> 0 \<or> y nextPos + radius \<ge> height) \<longrightarrow>
      x (collisionPoint (checkWallCollisions currentPos nextPos velocity width height radius)) =
        (if x nextPos - radius \<le> 0 then radius else width - radius) \<and>
      y (collisionPoint (checkWallCollisions currentPos nextPos velocity width height radius)) =
        (if y nextPos - radius \<le> 0 then radius else height - radius))"
  by (simp add: checkWall_fields)

text \<open>
  Three calls: no wall, the top left corner (both axes clamped in the same call), and
  the bottom right corner.
\<close>

theorem checkWallCollisions_contract_witness:
  "checkWallCollisions \<lparr>x = 75, y = 75\<rparr> \<lparr>x = 80, y = 75\<rparr> \<lparr>vx = 5, vy = 0\<rparr> 300 150 8 =
     \<lparr>hasCollision = False, collisionPoint = \<lparr>x = 80, y = 75\<rparr>, newVelocity = \<lparr>vx = 5, vy = 0\<rparr>\<rparr> \<and>
   checkWallCollisions \<lparr>x = 10, y = 10\<rparr> \<lparr>x = 7, y = 6\<rparr> \<lparr>vx = - 3, vy = - 4\<rparr> 300 150 8 =
     \<lparr>hasCollision = True, collisionPoint = \<lparr>x = 8, y = 8\<rparr>, newVelocity = \<lparr>vx = 3, vy = 4\<rparr>\<rparr> \<and>
   checkWallCollisions \<lparr>x = 290, y = 140\<rparr> \<lparr>x = 293, y = 144\<rparr> \<lparr>vx = 3, vy = 4\<rparr> 300 150 8 =
     \<lparr>hasCollision = True, collisionPoint = \<lparr>x = 292, y = 142\<rparr>, newVelocity = \<lparr>vx = - 3, vy = - 4\<rparr>\<rparr>"
  using checkWallCollisions_contract [of "\<lparr>x = 80, y = 75\<rparr>" 8 300 150 "\<lparr>x = 75, y = 75\<rparr>" "\<lparr>vx = 5, vy = 0\<rparr>"]
    checkWallCollisions_contract [of "\<lparr>x = 7, y = 6\<rparr>" 8 300 150 "\<lparr>x = 10, y = 10\<rparr>" "\<lparr>vx = - 3, vy = - 4\<rparr>"]
    checkWallCollisions_contract [of "\<lparr>x = 293, y = 144\<rparr>" 8 300 150 "\<lparr>x = 290, y = 140\<rparr>" "\<lparr>vx = 3, vy = 4\<rparr>"]
  by simp

section \<open>The loop: unfolding, induction and invariants\<close>

lemma path_advance: "path (advance config width height s) = path s"
  by (simp add: advance_def Let_def)

lemma loopBody_cases:
  "speed (vel (advance config width height s)) < minVelocity config \<Longrightarrow>
     loopBody config width height s = (advance config width height s, True)"
  "\<not> speed (vel (advance config width height s)) < minVelocity config \<Longrightarrow>
     loopBody config width height s =
       ((advance config width height s)
          \<lparr>path := path s @ [\<lparr>x = currentX (advance config width height s),
                              y = currentY (advance config width height s)\<rparr>]\<rparr>, False)"
  by (simp_all add: loopBody_def Let_def path_advance)

lemma simulate_exit:
  "\<not> (bounces s < bounceLimit \<and> length (path s) < maxPoints config) \<Longrightarrow>
     simulate config width height bounceLimit s = s"
  by (subst simulate.simps) auto

lemma simulate_break:
  "bounces s < bounceLimit \<Longrightarrow> length (path s) < maxPoints config \<Longrightarrow>
   speed (vel (advance config width height s)) < minVelocity config \<Longrightarrow>
     simulate config width height bounceLimit s = advance config width height s"
  by (subst simulate.simps) (simp add: loopBody_cases)

lemma simulate_continue:
  "bounces s < bounceLimit \<Longrightarrow> length (path s) < maxPoints config \<Longrightarrow>
   \<not> speed (vel (advance config width height s)) < minVelocity config \<Longrightarrow>
     simulate config width height bounceLimit s =
       simulate config width height bounceLimit
         ((advance config width height s)
            \<lparr>path := path s @ [\<lparr>x = currentX (advance config width height s),
                                y = currentY (advance config width height s)\<rparr>]\<rparr>)"
  by (subst simulate.simps) (simp add: loopBody_cases)

lemma simulate_rule [consumes 0, case_names exit break continue]:
  assumes "\<And>s. \<not> (bounces s < bounceLimit \<and> length (path s) < maxPoints config) \<Longrightarrow> P s"
    and "\<And>s. bounces s < bounceLimit \<Longrightarrow> length (path s) < maxPoints config \<Longrightarrow>
           speed (vel (advance config width height s)) < minVelocity config \<Longrightarrow> P s"
    and "\<And>s. bounces s < bounceLimit \<Longrightarrow> length (path s) < maxPoints config \<Longrightarrow>
           \<not> speed (vel (advance config width height s)) < minVelocity config \<Longrightarrow>
           P ((advance config width height s)
                \<lparr>path := path s @ [\<lparr>x = currentX (advance config width height s),
                                    y = currentY (advance config width height s)\<rparr>]\<rparr>) \<Longrightarrow> P s"
  shows "P s"
proof (induction "maxPoints config - length (path s)" arbitrary: s rule: less_induct)
  case less
  show ?case
  proof (cases "bounces s < bounceLimit \<and> length (path s) < maxPoints config")
    case False
    then show ?thesis by (rule assms(1))
  next
    case guard: True
    show ?thesis
    proof (cases "speed (vel (advance config width height s)) < minVelocity config")
      case True
      with guard show ?thesis by (auto intro: assms(2))
    next
      case False
      have "P ((advance config width height s)
                \<lparr>path := path s @ [\<lparr>x = currentX (advance config width height s),
                                    y = currentY (advance config width height s)\<rparr>]\<rparr>)"
        using guard by (intro less) auto
      moreover from guard have "bounces s < bounceLimit" "length (path s) < maxPoints config"
        by simp_all
      ultimately show ?thesis using False by (rule assms(3) [rotated 3])
    qed
  qed
qed

lemma simulate_path_prefix:
  "\<exists>ys. path (simulate config width height bounceLimit s) = path s @ ys"
proof (induction s rule: simulate_rule [where config = config and bounceLimit = bounceLimit
      and width = width and height = height])
  case (exit s)
  then show ?case by (simp add: simulate_exit)
next
  case (break s)
  then show ?case by (simp add: simulate_break path_advance)
next
  case (continue s)
  let ?s' = "(advance config width height s)
       \<lparr>path := path s @ [\<lparr>x = currentX (advance config width height s),
                           y = currentY (advance config width height s)\<rparr>]\<rparr>"
  have eq: "simulate config width height bounceLimit s = simulate config width height bounceLimit ?s'"
    using continue(1-3) by (rule simulate_continue)
  from continue(4) obtain ys where "path (simulate config width height bounceLimit ?s') = path ?s' @ ys"
    by blast
  then show ?case unfolding eq by simp
qed

lemma simulate_length:
  "length (path s) \<le> maxPoints config \<Longrightarrow>
     length (path (simulate config width height bounceLimit s)) \<le> maxPoints config"
proof (induction s rule: simulate_rule [where config = config and bounceLimit = bounceLimit
      and width = width and height = height])
  case (exit s)
  then show ?case by (simp add: simulate_exit)
next
  case (break s)
  then show ?case by (simp add: simulate_break path_advance)
next
  case (continue s)
  let ?s' = "(advance config width height s)
       \<lparr>path := path s @ [\<lparr>x = currentX (advance config width height s),
                           y = currentY (advance config width height s)\<rparr>]\<rparr>"
  have eq: "simulate config width height bounceLimit s = simulate config width height bounceLimit ?s'"
    using continue(1-3) by (rule simulate_continue)
  from continue(2) have "length (path ?s') \<le> maxPoints config" by simp
  then show ?case unfolding eq by (rule continue(4))
qed

lemma bounces_advance:
  "bounces (advance config width height s) =
     bounces s +
       (if hasCollision (checkWallCollisions \<lparr>x = currentX s, y = currentY s\<rparr>
             \<lparr>x = currentX s + vx (vel s) * timeStep config,
              y = currentY s + vy (vel s) * timeStep config\<rparr>
             (vel s) width height (ballRadius config))
        then 1 else 0)"
  by (simp add: advance_def Let_def)

lemma bounces_advance_bounds:
  "bounces s \<le> bounces (advance config width height s)"
  "bounces (advance config width height s) \<le> bounces s + 1"
  by (simp_all add: bounces_advance)

lemma simulate_bounces:
  "bounces s \<le> bounceLimit \<Longrightarrow>
     bounces (simulate config width height bounceLimit s) \<le> bounceLimit"
proof (induction s rule: simulate_rule [where config = config and bounceLimit = bounceLimit
      and width = width and height = height])
  case (exit s)
  then show ?case by (simp add: simulate_exit)
next
  case (break s)
  have "bounces (advance config width height s) \<le> bounces s + 1"
    by (rule bounces_advance_bounds)
  with break(1) show ?case unfolding simulate_break [OF break(1-3)] by simp
next
  case (continue s)
  let ?s' = "(advance config width height s)
       \<lparr>path := path s @ [\<lparr>x = currentX (advance config width height s),
                           y = currentY (advance config width height s)\<rparr>]\<rparr>"
  have eq: "simulate config width height bounceLimit s = simulate config width height bounceLimit ?s'"
    using continue(1-3) by (rule simulate_continue)
  have "bounces (advance config width height s) \<le> bounces s + 1"
    by (rule bounces_advance_bounds)
  with continue(1) have "bounces ?s' \<le> bounceLimit" by simp
  then show ?case unfolding eq by (rule continue(4))
qed

lemma launchState_path:
  "path (launchState config p angle) = [\<lparr>x = PredictedPathParams.x p, y = PredictedPathParams.y p\<rparr>]"
  "bounces (launchState config p angle) = 0"
  by (simp_all add: launchState_def Let_def)

lemma finalState_path:
  "\<exists>ys. path (finalState config p angle) =
     \<lparr>x = PredictedPathParams.x p, y = PredictedPathParams.y p\<rparr> # ys"
  using simulate_path_prefix [of config "tableWidth p" "tableHeight p" "bounceBudget p"
      "launchState config p angle"]
  by (simp add: finalState_def launchState_path)

lemma getPredictedPath_valid:
  "0 < force p \<Longrightarrow> angleInDegrees p = Finite angle \<Longrightarrow>
     getPredictedPath p = path (finalState DEFAULT_CONFIG p angle)"
  "0 < force p \<Longrightarrow> angleInDegrees p = Finite angle \<Longrightarrow>
     getPredictedPath_small p = path (finalState DEFAULT_CONFIG_small p angle)"
  by (simp_all add: getPredictedPath_def getPredictedPath_small_def)

lemma isFinite_cases: "isFinite a \<Longrightarrow> \<exists>r. a = Finite r"
  by (cases a) simp_all

lemma loopBody_fst:
  "bounces (fst (loopBody config width height s)) = bounces (advance config width height s)"
  "currentX (fst (loopBody config width height s)) = currentX (advance config width height s)"
  "currentY (fst (loopBody config width height s)) = currentY (advance config width height s)"
  "vel (fst (loopBody config width height s)) = vel (advance config width height s)"
  by (simp_all add: loopBody_def Let_def)

lemma position_advance:
  "currentX (advance config width height s) =
     x (collisionPoint (checkWallCollisions \<lparr>x = currentX s, y = currentY s\<rparr>
          \<lparr>x = currentX s + vx (vel s) * timeStep config,
           y = currentY s + vy (vel s) * timeStep config\<rparr>
          (vel s) width height (ballRadius config)))"
  "currentY (advance config width height s) =
     y (collisionPoint (checkWallCollisions \<lparr>x = currentX s, y = currentY s\<rparr>
          \<lparr>x = currentX s + vx (vel s) * timeStep config,
           y = currentY s + vy (vel s) * timeStep config\<rparr>
          (vel s) width height (ballRadius config)))"
  by (simp_all add: advance_def Let_def checkWallCollisions_def)

lemma speed_axis:
  "speed \<lparr>vx = a, vy = 0\<rparr> = \<bar>a\<bar>"
  "speed \<lparr>vx = 0, vy = b\<rparr> = \<bar>b\<bar>"
  by (simp_all add: speed_def)

lemma checkWall_point:
  "collisionPoint (checkWallCollisions currentPos nextPos velocity width height radius) =
     \<lparr>x = (if x nextPos - radius \<le> 0 then radius
            else if x nextPos + radius \<ge> width then width - radius else x nextPos),
      y = (if y nextPos - radius \<le> 0 then radius
            else if y nextPos + radius \<ge> height then height - radius else y nextPos)\<rparr>"
  by (simp add: checkWallCollisions_def Let_def)

lemma simulate_no_budget:
  "bounceLimit \<le> bounces s \<Longrightarrow> simulate config width height bounceLimit s = s"
  by (rule simulate_exit) simp

lemma simulate_first_step:
  assumes "bounces s < bounceLimit" and "length (path s) < maxPoints config"
    and "\<not> speed (vel (advance config width height s)) < minVelocity config"
  shows "\<exists>ys. path (simulate config width height bounceLimit s) =
     path s @ \<lparr>x = currentX (advance config width height s),
                y = currentY (advance config width height s)\<rparr> # ys"
proof -
  let ?s' = "(advance config width height s)
       \<lparr>path := path s @ [\<lparr>x = currentX (advance config width height s),
                           y = currentY (advance config width height s)\<rparr>]\<rparr>"
  obtain ys where "path (simulate config width height bounceLimit ?s') = path ?s' @ ys"
    using simulate_path_prefix by blast
  then show ?thesis
    unfolding simulate_continue [OF assms] by simp
qed

lemma DEFAULT_CONFIG_fields:
  "ballRadius DEFAULT_CONFIG = 8" "friction DEFAULT_CONFIG = 985 / 1000"
  "minVelocity DEFAULT_CONFIG = 3 / 10" "timeStep DEFAULT_CONFIG = 8 / 100"
  "maxPoints DEFAULT_CONFIG = 300" "velocityScale DEFAULT_CONFIG = 15 / 100"
  by (simp_all add: DEFAULT_CONFIG_def)

section \<open>Properties of the simulator\<close>

text \<open>
  Claim C2. A request with \<open>force \<le> 0\<close> or with an angle that is not finite
  (NaN, Infinity, -Infinity) gets the empty path, whatever its other fields are. The
  function has no error result: both copies return the empty list.
\<close>

theorem invalid_request_empty_path:
  "force p \<le> 0 \<or> \<not> isFinite (angleInDegrees p) \<Longrightarrow>
     getPredictedPath p = [] \<and> getPredictedPath_small p = []"
  by (auto simp: getPredictedPath_def getPredictedPath_small_def)

text \<open>
  Force 0 with a finite angle, and the angles NaN and Infinity with a positive force.
\<close>

theorem invalid_request_empty_path_witness:
  "getPredictedPath \<lparr>PredictedPathParams.x = 75, PredictedPathParams.y = 75,
      angleInDegrees = Finite 30, force = 0, tableWidth = 300, tableHeight = 150,
      maxBounces = Some 8\<rparr> = [] \<and>
   getPredictedPath \<lparr>PredictedPathParams.x = 75, PredictedPathParams.y = 75,
      angleInDegrees = NaN, force = 50, tableWidth = 300, tableHeight = 150,
      maxBounces = None\<rparr> = [] \<and>
   getPredictedPath \<lparr>PredictedPathParams.x = 75, PredictedPathParams.y = 75,
      angleInDegrees = PosInfinity, force = 50, tableWidth = 300, tableHeight = 150,
      maxBounces = None\<rparr> = []"
  using invalid_request_empty_path [of "\<lparr>PredictedPathParams.x = 75, PredictedPathParams.y = 75,
      angleInDegrees = Finite 30, force = 0, tableWidth = 300, tableHeight = 150,
      maxBounces = Some 8\<rparr>"]
    invalid_request_empty_path [of "\<lparr>PredictedPathParams.x = 75, PredictedPathParams.y = 75,
      angleInDegrees = NaN, force = 50, tableWidth = 300, tableHeight = 150,
      maxBounces = None\<rparr>"]
    invalid_request_empty_path [of "\<lparr>PredictedPathParams.x = 75, PredictedPathParams.y = 75,
      angleInDegrees = PosInfinity, force = 50, tableWidth = 300, tableHeight = 150,
      maxBounces = None\<rparr>"]
  by simp

text \<open>
  Claim C3. For a request with \<open>force > 0\<close> and a finite angle the returned path is
  not empty and its first element is the launch origin \<open>(x, y)\<close>.
\<close>

theorem valid_request_starts_at_origin:
  assumes "0 < force p" and "isFinite (angleInDegrees p)"
  shows "getPredictedPath p \<noteq> [] \<and>
    hd (getPredictedPath p) = \<lparr>x = PredictedPathParams.x p, y = PredictedPathParams.y p\<rparr> \<and>
    getPredictedPath_small p \<noteq> [] \<and>
    hd (getPredictedPath_small p) = \<lparr>x = PredictedPathParams.x p, y = PredictedPathParams.y p\<rparr>"
proof -
  from assms(2) obtain angle where a: "angleInDegrees p = Finite angle"
    using isFinite_cases by blast
  obtain ys where "path (finalState DEFAULT_CONFIG p angle) =
      \<lparr>x = PredictedPathParams.x p, y = PredictedPathParams.y p\<rparr> # ys"
    using finalState_path by blast
  moreover obtain zs where "path (finalState DEFAULT_CONFIG_small p angle) =
      \<lparr>x = PredictedPathParams.x p, y = PredictedPathParams.y p\<rparr> # zs"
    using finalState_path by blast
  ultimately show ?thesis
    by (simp add: getPredictedPath_valid [OF assms(1) a])
qed

text \<open>The sample request starts at (75, 75).\<close>

theorem valid_request_starts_at_origin_witness:
  "0 < force scenarioRequest \<and> isFinite (angleInDegrees scenarioRequest) \<and>
   getPredictedPath scenarioRequest \<noteq> [] \<and>
   hd (getPredictedPath scenarioRequest) = \<lparr>x = 75, y = 75\<rparr>"
  using valid_request_starts_at_origin [of scenarioRequest]
  by (simp add: scenarioRequest_def)

text \<open>The runs of the two shots at the right wall.\<close>

lemma wallShot_advance:
  "advance DEFAULT_CONFIG 300 150 (launchState DEFAULT_CONFIG wallShotRequest 0) =
     \<lparr>currentX = 292, currentY = 75,
      vel = \<lparr>vx = - (15 / 2 * (92 / 100) * (985 / 1000)), vy = 0\<rparr>,
      bounces = 1, path = [\<lparr>x = 583 / 2, y = 75\<rparr>]\<rparr>"
  by (simp add: advance_def Let_def launchState_def wallShotRequest_def DEFAULT_CONFIG_def
      checkWall_fields bounceEnergyLoss_def)

lemma wallShot_run:
  "finalState DEFAULT_CONFIG wallShotRequest 0 =
     \<lparr>currentX = 292, currentY = 75,
      vel = \<lparr>vx = - (15 / 2 * (92 / 100) * (985 / 1000)), vy = 0\<rparr>,
      bounces = 1, path = [\<lparr>x = 583 / 2, y = 75\<rparr>, \<lparr>x = 292, y = 75\<rparr>]\<rparr>"
proof -
  let ?s = "launchState DEFAULT_CONFIG wallShotRequest 0"
  let ?t = "\<lparr>currentX = 292, currentY = 75,
      vel = \<lparr>vx = - (15 / 2 * (92 / 100) * (985 / 1000)), vy = 0\<rparr>,
      bounces = 1, path = [\<lparr>x = 583 / 2, y = 75\<rparr>, \<lparr>x = 292, y = 75\<rparr>]\<rparr>"
  have lp: "path ?s = [\<lparr>x = 583 / 2, y = 75\<rparr>]" "bounces ?s = 0"
    by (simp_all add: launchState_path wallShotRequest_def)
  have "simulate DEFAULT_CONFIG 300 150 1 ?s =
      simulate DEFAULT_CONFIG 300 150 1
        ((advance DEFAULT_CONFIG 300 150 ?s)
           \<lparr>path := path ?s @ [\<lparr>x = currentX (advance DEFAULT_CONFIG 300 150 ?s),
                               y = currentY (advance DEFAULT_CONFIG 300 150 ?s)\<rparr>]\<rparr>)"
  proof (rule simulate_continue)
    show "bounces ?s < 1" by (simp add: lp)
    show "length (path ?s) < maxPoints DEFAULT_CONFIG" by (simp add: lp DEFAULT_CONFIG_fields)
    show "\<not> speed (vel (advance DEFAULT_CONFIG 300 150 ?s)) < minVelocity DEFAULT_CONFIG"
      unfolding wallShot_advance by (simp add: speed_axis DEFAULT_CONFIG_fields)
  qed
  also have "\<dots> = simulate DEFAULT_CONFIG 300 150 1 ?t"
    unfolding wallShot_advance lp by simp
  also have "\<dots> = ?t"
    by (rule simulate_exit) simp
  finally show ?thesis
    by (simp add: finalState_def bounceBudget_def wallShotRequest_def)
qed

lemma nearWall_advance:
  "advance DEFAULT_CONFIG 300 150 (launchState DEFAULT_CONFIG nearWallRequest 0) =
     \<lparr>currentX = 292, currentY = 75,
      vel = \<lparr>vx = - (33 / 100 * (92 / 100) * (985 / 1000)), vy = 0\<rparr>,
      bounces = 1, path = [\<lparr>x = 29199 / 100, y = 75\<rparr>]\<rparr>"
  by (simp add: advance_def Let_def launchState_def nearWallRequest_def DEFAULT_CONFIG_def
      checkWall_fields bounceEnergyLoss_def)

lemma nearWall_run:
  "finalState DEFAULT_CONFIG nearWallRequest 0 =
     \<lparr>currentX = 292, currentY = 75,
      vel = \<lparr>vx = - (33 / 100 * (92 / 100) * (985 / 1000)), vy = 0\<rparr>,
      bounces = 1, path = [\<lparr>x = 29199 / 100, y = 75\<rparr>]\<rparr>"
proof -
  let ?s = "launchState DEFAULT_CONFIG nearWallRequest 0"
  have lp: "path ?s = [\<lparr>x = 29199 / 100, y = 75\<rparr>]" "bounces ?s = 0"
    by (simp_all add: launchState_path nearWallRequest_def)
  have "simulate DEFAULT_CONFIG 300 150 8 ?s = advance DEFAULT_CONFIG 300 150 ?s"
  proof (rule simulate_break)
    show "bounces ?s < 8" by (simp add: lp)
    show "length (path ?s) < maxPoints DEFAULT_CONFIG" by (simp add: lp DEFAULT_CONFIG_fields)
    show "speed (vel (advance DEFAULT_CONFIG 300 150 ?s)) < minVelocity DEFAULT_CONFIG"
      unfolding nearWall_advance by (simp add: speed_axis DEFAULT_CONFIG_fields)
  qed
  then show ?thesis
    unfolding nearWall_advance
    by (simp add: finalState_def bounceBudget_def nearWallRequest_def)
qed

text \<open>
  Claim C4, as stated, fails in its last part (and, for a negative budget, in its second).
  The weak shot \<open>nearWallRequest\<close> meets the right wall in its first iteration: the
  collision is counted, \<open>bounces\<close> is 1, and the resolver's contact point is (292, 75).
  The speed after the bounce is 0.299046, below \<open>minVelocity\<close>, so the loop stops
  before the push: the returned path is the launch point alone and does not hold the
  contact point. With \<open>maxBounces = -1\<close> no collision is processed, and 0 is not at
  most -1.
\<close>

theorem path_length_and_bounce_bounds_counterexample:
  "getPredictedPath nearWallRequest = [\<lparr>x = 29199 / 100, y = 75\<rparr>] \<and>
   bounces (finalState DEFAULT_CONFIG nearWallRequest 0) = 1 \<and>
   hasCollision (checkWallCollisions \<lparr>x = 29199 / 100, y = 75\<rparr>
      \<lparr>x = 29199 / 100 + 33 / 100 * (8 / 100), y = 75\<rparr> \<lparr>vx = 33 / 100, vy = 0\<rparr> 300 150 8) \<and>
   collisionPoint (checkWallCollisions \<lparr>x = 29199 / 100, y = 75\<rparr>
      \<lparr>x = 29199 / 100 + 33 / 100 * (8 / 100), y = 75\<rparr> \<lparr>vx = 33 / 100, vy = 0\<rparr> 300 150 8) =
     \<lparr>x = 292, y = 75\<rparr> \<and>
   \<lparr>x = 292, y = 75\<rparr> \<notin> set (getPredictedPath nearWallRequest) \<and>
   bounceBudget (scenarioRequest\<lparr>maxBounces := Some (- 1)\<rparr>) = - 1 \<and>
   bounces (finalState DEFAULT_CONFIG (scenarioRequest\<lparr>maxBounces := Some (- 1)\<rparr>) 0) = 0"
proof -
  have p: "getPredictedPath nearWallRequest = path (finalState DEFAULT_CONFIG nearWallRequest 0)"
    by (rule getPredictedPath_valid) (simp_all add: nearWallRequest_def)
  have neg: "finalState DEFAULT_CONFIG (scenarioRequest\<lparr>maxBounces := Some (- 1)\<rparr>) 0 =
      launchState DEFAULT_CONFIG (scenarioRequest\<lparr>maxBounces := Some (- 1)\<rparr>) 0"
    unfolding finalState_def
    by (rule simulate_no_budget) (simp add: launchState_path bounceBudget_def)
  show ?thesis
    unfolding p nearWall_run neg
    by (simp add: checkWall_fields checkWall_point launchState_path bounceBudget_def)
qed

text \<open>
  Claim C4, amended. For every request (with an integer \<open>maxBounces\<close>) the returned
  path has at most \<open>maxPoints = 300\<close> points, and the number of collisions processed,
  the counter \<open>bounces\<close> when the loop is left, is at most \<open>maxBounces\<close>, or 0 when
  \<open>maxBounces\<close> is negative. The counter grows by one in exactly the iterations in
  which the resolver reports a collision. The contact point of such an iteration is
  appended to the path, as an ordinary point, when the iteration passes the speed test;
  when the speed test stops the loop in that iteration the path is left as it was, so
  the collision is counted and its contact point is not recorded.
\<close>

theorem path_length_and_bounce_bounds:
  "length (getPredictedPath p) \<le> 300 \<and>
   length (getPredictedPath_small p) \<le> 300 \<and>
   maxPoints DEFAULT_CONFIG = 300 \<and> maxPoints DEFAULT_CONFIG_small = 300 \<and>
   bounces (finalState DEFAULT_CONFIG p angle) \<le> max 0 (bounceBudget p) \<and>
   bounces (finalState DEFAULT_CONFIG_small p angle) \<le> max 0 (bounceBudget p) \<and>
   bounces (fst (loopBody config width height s)) =
     bounces s + (if hasCollision (checkWallCollisions \<lparr>x = currentX s, y = currentY s\<rparr>
        \<lparr>x = currentX s + vx (vel s) * timeStep config,
         y = currentY s + vy (vel s) * timeStep config\<rparr>
        (vel s) width height (ballRadius config)) then 1 else 0) \<and>
   (hasCollision (checkWallCollisions \<lparr>x = currentX s, y = currentY s\<rparr>
        \<lparr>x = currentX s + vx (vel s) * timeStep config,
         y = currentY s + vy (vel s) * timeStep config\<rparr>
        (vel s) width height (ballRadius config)) \<and>
    \<not> speed (vel (advance config width height s)) < minVelocity config \<longrightarrow>
      path (fst (loopBody config width height s)) = path s @ [collisionPoint (checkWallCollisions \<lparr>x = currentX s, y = currentY s\<rparr>
        \<lparr>x = currentX s + vx (vel s) * timeStep config,
         y = currentY s + vy (vel s) * timeStep config\<rparr>
        (vel s) width height (ballRadius config))]) \<and>
   (speed (vel (advance config width height s)) < minVelocity config \<longrightarrow>
      path (fst (loopBody config width height s)) = path s)"
proof -
  have len: "length (path (finalState config' p a)) \<le> maxPoints config'"
    if "0 < maxPoints config'" for config' a
    unfolding finalState_def using that
    by (intro simulate_length) (simp add: launchState_path)
  have mp: "maxPoints DEFAULT_CONFIG = 300" "maxPoints DEFAULT_CONFIG_small = 300"
    by (simp_all add: DEFAULT_CONFIG_def DEFAULT_CONFIG_small_def)
  have l1: "length (getPredictedPath p) \<le> 300"
    using len [of DEFAULT_CONFIG]
    by (auto simp: getPredictedPath_def mp split: jsnumber.splits)
  have l2: "length (getPredictedPath_small p) \<le> 300"
    using len [of DEFAULT_CONFIG_small]
    by (auto simp: getPredictedPath_small_def mp split: jsnumber.splits)
  have b: "bounces (finalState config' p angle) \<le> max 0 (bounceBudget p)" for config'
  proof (cases "0 \<le> bounceBudget p")
    case True
    then have "bounces (finalState config' p angle) \<le> bounceBudget p"
      unfolding finalState_def
      by (intro simulate_bounces) (simp add: launchState_path)
    with True show ?thesis by simp
  next
    case False
    then have "finalState config' p angle = launchState config' p angle"
      unfolding finalState_def
      by (intro simulate_no_budget) (simp add: launchState_path)
    then show ?thesis by (simp add: launchState_path)
  qed
  have pt: "\<lparr>x = currentX (advance config width height s), y = currentY (advance config width height s)\<rparr> =
      collisionPoint (checkWallCollisions \<lparr>x = currentX s, y = currentY s\<rparr>
        \<lparr>x = currentX s + vx (vel s) * timeStep config,
         y = currentY s + vy (vel s) * timeStep config\<rparr>
        (vel s) width height (ballRadius config))"
    by (simp add: position_advance)
  show ?thesis
    using l1 l2 mp b
    by (simp add: loopBody_fst bounces_advance loopBody_cases pt path_advance)
qed

text \<open>
  The shot \<open>wallShotRequest\<close>: one collision is processed, the budget 1 is reached, and
  the contact point (292, 75) is the second and last point of the path. The shot
  \<open>nearWallRequest\<close>: the iteration with the collision stops on the speed test and
  leaves the path as it was.
\<close>

theorem path_length_and_bounce_bounds_witness:
  "getPredictedPath wallShotRequest = [\<lparr>x = 583 / 2, y = 75\<rparr>, \<lparr>x = 292, y = 75\<rparr>] \<and>
   length (getPredictedPath wallShotRequest) \<le> 300 \<and>
   bounceBudget wallShotRequest = 1 \<and>
   bounces (finalState DEFAULT_CONFIG wallShotRequest 0) = 1 \<and>
   bounces (finalState DEFAULT_CONFIG wallShotRequest 0) \<le> max 0 (bounceBudget wallShotRequest) \<and>
   path (fst (loopBody DEFAULT_CONFIG 300 150 (launchState DEFAULT_CONFIG wallShotRequest 0))) =
     [\<lparr>x = 583 / 2, y = 75\<rparr>, \<lparr>x = 292, y = 75\<rparr>] \<and>
   speed (vel (advance DEFAULT_CONFIG 300 150 (launchState DEFAULT_CONFIG nearWallRequest 0)))
     < minVelocity DEFAULT_CONFIG \<and>
   path (fst (loopBody DEFAULT_CONFIG 300 150 (launchState DEFAULT_CONFIG nearWallRequest 0))) =
     [\<lparr>x = 29199 / 100, y = 75\<rparr>]"
proof -
  let ?w = "launchState DEFAULT_CONFIG wallShotRequest 0"
  let ?n = "launchState DEFAULT_CONFIG nearWallRequest 0"
  have p: "getPredictedPath wallShotRequest = path (finalState DEFAULT_CONFIG wallShotRequest 0)"
    by (rule getPredictedPath_valid) (simp_all add: wallShotRequest_def)
  have budget: "bounceBudget wallShotRequest = 1"
    by (simp add: bounceBudget_def wallShotRequest_def)
  have w: "currentX ?w = 583 / 2" "currentY ?w = 75" "vel ?w = \<lparr>vx = 15 / 2, vy = 0\<rparr>"
    "path ?w = [\<lparr>x = 583 / 2, y = 75\<rparr>]"
    by (simp_all add: launchState_def wallShotRequest_def DEFAULT_CONFIG_fields)
  have n: "path ?n = [\<lparr>x = 29199 / 100, y = 75\<rparr>]"
    by (simp add: launchState_path nearWallRequest_def)
  have slow: "speed (vel (advance DEFAULT_CONFIG 300 150 ?n)) < minVelocity DEFAULT_CONFIG"
    unfolding nearWall_advance by (simp add: speed_axis DEFAULT_CONFIG_fields)
  have fast: "\<not> speed (vel (advance DEFAULT_CONFIG 300 150 ?w)) < minVelocity DEFAULT_CONFIG"
    unfolding wallShot_advance by (simp add: speed_axis DEFAULT_CONFIG_fields)
  have hit: "hasCollision (checkWallCollisions \<lparr>x = currentX ?w, y = currentY ?w\<rparr>
        \<lparr>x = currentX ?w + vx (vel ?w) * timeStep DEFAULT_CONFIG,
         y = currentY ?w + vy (vel ?w) * timeStep DEFAULT_CONFIG\<rparr>
        (vel ?w) 300 150 (ballRadius DEFAULT_CONFIG))"
    by (simp add: w checkWall_fields DEFAULT_CONFIG_fields)
  have cp: "collisionPoint (checkWallCollisions \<lparr>x = currentX ?w, y = currentY ?w\<rparr>
        \<lparr>x = currentX ?w + vx (vel ?w) * timeStep DEFAULT_CONFIG,
         y = currentY ?w + vy (vel ?w) * timeStep DEFAULT_CONFIG\<rparr>
        (vel ?w) 300 150 (ballRadius DEFAULT_CONFIG)) = \<lparr>x = 292, y = 75\<rparr>"
    by (simp add: w checkWall_point DEFAULT_CONFIG_fields)
  from path_length_and_bounce_bounds [where p = wallShotRequest and angle = 0
      and config = DEFAULT_CONFIG and width = 300 and height = 150 and s = ?w]
    path_length_and_bounce_bounds [where p = nearWallRequest and angle = 0
      and config = DEFAULT_CONFIG and width = 300 and height = 150 and s = ?n]
  have "path (fst (loopBody DEFAULT_CONFIG 300 150 ?w)) = path ?w @ [\<lparr>x = 292, y = 75\<rparr>]"
    and "path (fst (loopBody DEFAULT_CONFIG 300 150 ?n)) = path ?n"
    and "length (getPredictedPath wallShotRequest) \<le> 300"
    and "bounces (finalState DEFAULT_CONFIG wallShotRequest 0) \<le> max 0 (bounceBudget wallShotRequest)"
    using hit cp slow fast by simp_all
  then show ?thesis
    using slow by (simp add: p wallShot_run budget w(4) n)
qed

text \<open>
  Claim C5. In an iteration of the loop (the loop condition holds at its head) in which
  the speed computed after friction is below \<open>minVelocity\<close>, the body leaves through
  \<open>break\<close> with the path untouched, and the loop returns with the path it had at the
  head of that iteration: the position computed in the iteration is not in the path.
\<close>

theorem speed_stop_discards_point:
  assumes "bounces s < bounceLimit" and "length (path s) < maxPoints config"
    and "speed (vel (advance config width height s)) < minVelocity config"
  shows "loopBody config width height s = (advance config width height s, True) \<and>
    path (advance config width height s) = path s \<and>
    simulate config width height bounceLimit s = advance config width height s \<and>
    path (simulate config width height bounceLimit s) = path s"
  using assms by (simp add: loopBody_cases simulate_break path_advance)

text \<open>
  Force 2 gives the launch speed 0.3; one friction step brings it to 0.2955, below the
  threshold, and the path stays the launch point alone.
\<close>

theorem speed_stop_discards_point_witness:
  "bounces (launchState DEFAULT_CONFIG (scenarioRequest\<lparr>force := 2\<rparr>) 0) < 8 \<and>
   length (path (launchState DEFAULT_CONFIG (scenarioRequest\<lparr>force := 2\<rparr>) 0))
     < maxPoints DEFAULT_CONFIG \<and>
   speed (vel (advance DEFAULT_CONFIG 300 150
     (launchState DEFAULT_CONFIG (scenarioRequest\<lparr>force := 2\<rparr>) 0))) < minVelocity DEFAULT_CONFIG \<and>
   path (simulate DEFAULT_CONFIG 300 150 8
     (launchState DEFAULT_CONFIG (scenarioRequest\<lparr>force := 2\<rparr>) 0)) = [\<lparr>x = 75, y = 75\<rparr>]"
  using speed_stop_discards_point [of "launchState DEFAULT_CONFIG (scenarioRequest\<lparr>force := 2\<rparr>) 0"
      8 DEFAULT_CONFIG 300 150]
  by (simp add: scenarioRequest_def DEFAULT_CONFIG_def checkWall_fields launchState_def
      speed_axis advance_def Let_def bounceEnergyLoss_def)

text \<open>
  Claim C10. One iteration of the loop raises the counter \<open>bounces\<close> by at most
  one. When the resolver clamps the x axis and the y axis in the same call, both
  coordinates are clamped and the counter still grows by exactly one.
\<close>

theorem bounce_counter_step:
  "bounces (fst (loopBody config width height s)) \<le> bounces s + 1 \<and>
   bounces s \<le> bounces (fst (loopBody config width height s)) \<and>
   ((currentX s + vx (vel s) * timeStep config - ballRadius config \<le> 0 \<or>
     currentX s + vx (vel s) * timeStep config + ballRadius config \<ge> width) \<and>
    (currentY s + vy (vel s) * timeStep config - ballRadius config \<le> 0 \<or>
     currentY s + vy (vel s) * timeStep config + ballRadius config \<ge> height) \<longrightarrow>
      currentX (fst (loopBody config width height s)) =
        (if currentX s + vx (vel s) * timeStep config - ballRadius config \<le> 0
         then ballRadius config else width - ballRadius config) \<and>
      currentY (fst (loopBody config width height s)) =
        (if currentY s + vy (vel s) * timeStep config - ballRadius config \<le> 0
         then ballRadius config else height - ballRadius config) \<and>
      bounces (fst (loopBody config width height s)) = bounces s + 1)"
  by (simp add: loopBody_fst bounces_advance position_advance checkWall_fields)

text \<open>
  A step into the top left corner from (10, 10): both coordinates are clamped to the
  radius 8 and the counter goes from 3 to 4.
\<close>

theorem bounce_counter_step_witness:
  "bounces (fst (loopBody DEFAULT_CONFIG 300 150
      \<lparr>currentX = 10, currentY = 10, vel = \<lparr>vx = - 50, vy = - 50\<rparr>, bounces = 3,
       path = [\<lparr>x = 10, y = 10\<rparr>]\<rparr>)) = 4 \<and>
   currentX (fst (loopBody DEFAULT_CONFIG 300 150
      \<lparr>currentX = 10, currentY = 10, vel = \<lparr>vx = - 50, vy = - 50\<rparr>, bounces = 3,
       path = [\<lparr>x = 10, y = 10\<rparr>]\<rparr>)) = 8 \<and>
   currentY (fst (loopBody DEFAULT_CONFIG 300 150
      \<lparr>currentX = 10, currentY = 10, vel = \<lparr>vx = - 50, vy = - 50\<rparr>, bounces = 3,
       path = [\<lparr>x = 10, y = 10\<rparr>]\<rparr>)) = 8"
  using bounce_counter_step [of DEFAULT_CONFIG 300 150
      "\<lparr>currentX = 10, currentY = 10, vel = \<lparr>vx = - 50, vy = - 50\<rparr>, bounces = 3,
       path = [\<lparr>x = 10, y = 10\<rparr>]\<rparr>"]
  by (simp add: DEFAULT_CONFIG_def)

section \<open>Speed decay\<close>











section \<open>An exhausted bounce budget\<close>

text \<open>
  Claim C6, as stated, fails. For the sample request with \<open>maxBounces = 0\<close> the
  path is the launch point alone, although the launch speed is 7.5, the speed after one
  step would still be above \<open>minVelocity\<close>, and the path is far from \<open>maxPoints\<close>:
  no straight-line motion is recorded, and the path ends for neither of the two reasons
  the claim names.
\<close>

theorem zero_bounce_budget_counterexample:
  "0 < force (scenarioRequest\<lparr>maxBounces := Some 0\<rparr>) \<and>
   isFinite (angleInDegrees (scenarioRequest\<lparr>maxBounces := Some 0\<rparr>)) \<and>
   getPredictedPath (scenarioRequest\<lparr>maxBounces := Some 0\<rparr>) = [\<lparr>x = 75, y = 75\<rparr>] \<and>
   speed (vel (launchState DEFAULT_CONFIG (scenarioRequest\<lparr>maxBounces := Some 0\<rparr>) 0)) = 15 / 2 \<and>
   \<not> stoppedByDecayOrCap DEFAULT_CONFIG 300 150
       (launchState DEFAULT_CONFIG (scenarioRequest\<lparr>maxBounces := Some 0\<rparr>) 0)"
proof -
  let ?p = "scenarioRequest\<lparr>maxBounces := Some 0\<rparr>"
  have b: "bounceBudget ?p = 0"
    by (simp add: bounceBudget_def)
  have "finalState DEFAULT_CONFIG ?p 0 = launchState DEFAULT_CONFIG ?p 0"
    unfolding finalState_def b by (rule simulate_no_budget) (simp add: launchState_path)
  then have "getPredictedPath ?p = [\<lparr>x = 75, y = 75\<rparr>]"
    by (simp add: getPredictedPath_def scenarioRequest_def launchState_path)
  moreover have "\<not> stoppedByDecayOrCap DEFAULT_CONFIG 300 150 (launchState DEFAULT_CONFIG ?p 0)"
    by (simp add: stoppedByDecayOrCap_def DEFAULT_CONFIG_def checkWall_fields launchState_def
        scenarioRequest_def speed_axis advance_def Let_def)
  moreover have "speed (vel (launchState DEFAULT_CONFIG ?p 0)) = 15 / 2"
    by (simp add: DEFAULT_CONFIG_def launchState_def scenarioRequest_def speed_axis)
  ultimately show ?thesis
    by (simp add: scenarioRequest_def)
qed

text \<open>
  Claim C6, amended. For a request with \<open>force > 0\<close>, a finite angle and
  \<open>maxBounces = 0\<close> the loop condition \<open>bounces < maxBounces\<close> fails before the
  first iteration: the returned path is the launch origin alone, the loop is left in the
  launch state, and no collision is counted.
\<close>

theorem zero_bounce_budget_path:
  assumes "0 < force p" and "isFinite (angleInDegrees p)" and "maxBounces p = Some 0"
  shows "getPredictedPath p = [\<lparr>x = PredictedPathParams.x p, y = PredictedPathParams.y p\<rparr>] \<and>
    getPredictedPath_small p = [\<lparr>x = PredictedPathParams.x p, y = PredictedPathParams.y p\<rparr>] \<and>
    finalState DEFAULT_CONFIG p angle = launchState DEFAULT_CONFIG p angle \<and>
    bounces (finalState DEFAULT_CONFIG p angle) = 0"
proof -
  from assms(3) have b: "bounceBudget p = 0"
    by (simp add: bounceBudget_def)
  have fin: "finalState config p a = launchState config p a" for config a
    unfolding finalState_def b by (rule simulate_no_budget) (simp add: launchState_path)
  from assms(2) obtain a where a: "angleInDegrees p = Finite a"
    using isFinite_cases by blast
  show ?thesis
    by (simp add: getPredictedPath_valid [OF assms(1) a] fin launchState_path)
qed

text \<open>
  The sample request with the budget 0.
\<close>

theorem zero_bounce_budget_path_witness:
  "0 < force (scenarioRequest\<lparr>maxBounces := Some 0\<rparr>) \<and>
   isFinite (angleInDegrees (scenarioRequest\<lparr>maxBounces := Some 0\<rparr>)) \<and>
   maxBounces (scenarioRequest\<lparr>maxBounces := Some 0\<rparr>) = Some 0 \<and>
   getPredictedPath (scenarioRequest\<lparr>maxBounces := Some 0\<rparr>) = [\<lparr>x = 75, y = 75\<rparr>] \<and>
   bounces (finalState DEFAULT_CONFIG (scenarioRequest\<lparr>maxBounces := Some 0\<rparr>) 0) = 0"
  using zero_bounce_budget_path [of "scenarioRequest\<lparr>maxBounces := Some 0\<rparr>" 0]
  by (simp add: scenarioRequest_def launchState_path)

section \<open>Containment on the playing surface\<close>

lemma advance_onSurface:
  assumes "2 * ballRadius config \<le> width" and "2 * ballRadius config \<le> height"
  shows "onSurface (ballRadius config) width height
     \<lparr>x = currentX (advance config width height s), y = currentY (advance config width height s)\<rparr>"
  using assms by (auto simp: onSurface_def position_advance checkWall_fields)

lemma simulate_onSurface:
  assumes sane: "2 * ballRadius config \<le> width" "2 * ballRadius config \<le> height"
  shows "path s \<noteq> [] \<Longrightarrow>
     list_all (onSurface (ballRadius config) width height) (tl (path s)) \<Longrightarrow>
     list_all (onSurface (ballRadius config) width height)
       (tl (path (simulate config width height bounceLimit s)))"
proof (induction s rule: simulate_rule [where config = config and bounceLimit = bounceLimit
      and width = width and height = height])
  case (exit s)
  then show ?case by (simp add: simulate_exit)
next
  case (break s)
  then show ?case by (simp add: simulate_break path_advance)
next
  case (continue s)
  let ?s' = "(advance config width height s)
       \<lparr>path := path s @ [\<lparr>x = currentX (advance config width height s),
                           y = currentY (advance config width height s)\<rparr>]\<rparr>"
  have eq: "simulate config width height bounceLimit s = simulate config width height bounceLimit ?s'"
    using continue(1-3) by (rule simulate_continue)
  have "path ?s' \<noteq> []" by simp
  moreover have "list_all (onSurface (ballRadius config) width height) (tl (path ?s'))"
    using continue(5,6) advance_onSurface [OF sane, of s] by simp
  ultimately show ?case unfolding eq by (rule continue(4))
qed

lemma finalState_onSurface:
  assumes "2 * ballRadius config \<le> tableWidth p" and "2 * ballRadius config \<le> tableHeight p"
  shows "list_all (onSurface (ballRadius config) (tableWidth p) (tableHeight p))
     (tl (path (finalState config p angle)))"
  unfolding finalState_def
  by (rule simulate_onSurface [OF assms]) (simp_all add: launchState_path)

lemma getPredictedPath_cases:
  "getPredictedPath p = [] \<or> (\<exists>angle. getPredictedPath p = path (finalState DEFAULT_CONFIG p angle))"
  "getPredictedPath_small p = [] \<or>
     (\<exists>angle. getPredictedPath_small p = path (finalState DEFAULT_CONFIG_small p angle))"
  by (auto simp: getPredictedPath_def getPredictedPath_small_def split: jsnumber.splits)

lemma scenario_first_step:
  "\<exists>ys. getPredictedPath scenarioRequest = \<lparr>x = 75, y = 75\<rparr> # \<lparr>x = 378 / 5, y = 75\<rparr> # ys"
proof -
  let ?s = "launchState DEFAULT_CONFIG scenarioRequest 0"
  have adv: "advance DEFAULT_CONFIG 300 150 ?s =
      \<lparr>currentX = 378 / 5, currentY = 75, vel = \<lparr>vx = 15 / 2 * (985 / 1000), vy = 0\<rparr>,
       bounces = 0, path = [\<lparr>x = 75, y = 75\<rparr>]\<rparr>"
    by (simp add: advance_def Let_def launchState_def scenarioRequest_def DEFAULT_CONFIG_def
        checkWall_fields)
  have lp: "path ?s = [\<lparr>x = 75, y = 75\<rparr>]" "bounces ?s = 0"
    by (simp_all add: launchState_path scenarioRequest_def)
  have "\<exists>ys. path (simulate DEFAULT_CONFIG 300 150 8 ?s) =
      path ?s @ \<lparr>x = currentX (advance DEFAULT_CONFIG 300 150 ?s),
                 y = currentY (advance DEFAULT_CONFIG 300 150 ?s)\<rparr> # ys"
  proof (rule simulate_first_step)
    show "bounces ?s < 8" by (simp add: lp)
    show "length (path ?s) < maxPoints DEFAULT_CONFIG" by (simp add: lp DEFAULT_CONFIG_fields)
    show "\<not> speed (vel (advance DEFAULT_CONFIG 300 150 ?s)) < minVelocity DEFAULT_CONFIG"
      unfolding adv by (simp add: speed_axis DEFAULT_CONFIG_fields)
  qed
  then have "\<exists>ys. path (simulate DEFAULT_CONFIG 300 150 8 ?s) =
      \<lparr>x = 75, y = 75\<rparr> # \<lparr>x = 378 / 5, y = 75\<rparr> # ys"
    unfolding adv lp by simp
  moreover have "getPredictedPath scenarioRequest = path (simulate DEFAULT_CONFIG 300 150 8 ?s)"
    by (simp add: getPredictedPath_def finalState_def bounceBudget_def scenarioRequest_def)
  ultimately show ?thesis by simp
qed

text \<open>
  Claim C7, as stated, fails. The first point of a path is the launch origin, which the
  function takes as it is given. The sample request with the ball's centre at \<open>x = 0\<close>
  has sane table extents, and its path contains the point (0, 75), which is not within
  \<open>ballRadius \<le> x\<close>.
\<close>

theorem path_points_on_surface_counterexample:
  "2 * ballRadius DEFAULT_CONFIG < tableWidth (scenarioRequest\<lparr>PredictedPathParams.x := 0\<rparr>) \<and>
   2 * ballRadius DEFAULT_CONFIG < tableHeight (scenarioRequest\<lparr>PredictedPathParams.x := 0\<rparr>) \<and>
   0 < force (scenarioRequest\<lparr>PredictedPathParams.x := 0\<rparr>) \<and>
   isFinite (angleInDegrees (scenarioRequest\<lparr>PredictedPathParams.x := 0\<rparr>)) \<and>
   \<lparr>x = 0, y = 75\<rparr> \<in> set (getPredictedPath (scenarioRequest\<lparr>PredictedPathParams.x := 0\<rparr>)) \<and>
   \<not> onSurface (ballRadius DEFAULT_CONFIG)
       (tableWidth (scenarioRequest\<lparr>PredictedPathParams.x := 0\<rparr>))
       (tableHeight (scenarioRequest\<lparr>PredictedPathParams.x := 0\<rparr>)) \<lparr>x = 0, y = 75\<rparr>"
proof -
  let ?p = "scenarioRequest\<lparr>PredictedPathParams.x := 0\<rparr>"
  obtain ys where "path (finalState DEFAULT_CONFIG ?p 0) =
      \<lparr>x = PredictedPathParams.x ?p, y = PredictedPathParams.y ?p\<rparr> # ys"
    using finalState_path by blast
  then have "\<lparr>x = 0, y = 75\<rparr> \<in> set (getPredictedPath ?p)"
    by (simp add: getPredictedPath_def scenarioRequest_def)
  then show ?thesis
    by (simp add: onSurface_def DEFAULT_CONFIG_def scenarioRequest_def)
qed

text \<open>
  Claim C7, amended. For every request whose numbers are finite, whose angle is small
  enough for \<open>angleInDegrees * Math.PI\<close> not to overflow, and whose table is wider and
  higher than twice the ball radius: every point of the returned path after the first
  satisfies \<open>ballRadius \<le> x \<le> tableWidth - ballRadius\<close> and
  \<open>ballRadius \<le> y \<le> tableHeight - ballRadius\<close>; the first point is the launch
  origin, and when the origin satisfies the bounds every point of the path does. The
  finiteness of the force, the origin and the table extents is their type here. Outside
  these conditions the source returns points with NaN coordinates, which satisfy no
  bound.
\<close>

theorem path_points_on_surface:
  assumes "noRadiansOverflow (angleInDegrees p)"
    and "2 * ballRadius DEFAULT_CONFIG < tableWidth p"
    and "2 * ballRadius DEFAULT_CONFIG < tableHeight p"
  shows
  "(\<forall>pt \<in> set (tl (getPredictedPath p)).
      onSurface (ballRadius DEFAULT_CONFIG) (tableWidth p) (tableHeight p) pt) \<and>
   (onSurface (ballRadius DEFAULT_CONFIG) (tableWidth p) (tableHeight p)
      \<lparr>x = PredictedPathParams.x p, y = PredictedPathParams.y p\<rparr> \<longrightarrow>
    (\<forall>pt \<in> set (getPredictedPath p).
      onSurface (ballRadius DEFAULT_CONFIG) (tableWidth p) (tableHeight p) pt))"
proof -
  let ?Q = "onSurface (ballRadius DEFAULT_CONFIG) (tableWidth p) (tableHeight p)"
  let ?o = "\<lparr>x = PredictedPathParams.x p, y = PredictedPathParams.y p\<rparr>"
  have rest: "list_all ?Q (tl (getPredictedPath p))"
  proof -
    consider "getPredictedPath p = []"
      | angle where "getPredictedPath p = path (finalState DEFAULT_CONFIG p angle)"
      using getPredictedPath_cases(1) by blast
    then show ?thesis
    proof cases
      case 1
      then show ?thesis by simp
    next
      case 2
      from assms(2,3) show ?thesis
        unfolding 2 by (intro finalState_onSurface) simp_all
    qed
  qed
  have first: "getPredictedPath p = [] \<or> hd (getPredictedPath p) = ?o"
  proof -
    consider "getPredictedPath p = []"
      | angle where "getPredictedPath p = path (finalState DEFAULT_CONFIG p angle)"
      using getPredictedPath_cases(1) by blast
    then show ?thesis
    proof cases
      case 1
      then show ?thesis by simp
    next
      case 2
      obtain ys where "path (finalState DEFAULT_CONFIG p angle) = ?o # ys"
        using finalState_path by blast
      with 2 show ?thesis by simp
    qed
  qed
  have whole: "list_all ?Q (getPredictedPath p)" if "?Q ?o"
  proof (cases "getPredictedPath p")
    case Nil
    then show ?thesis by simp
  next
    case (Cons pt pts)
    with first rest that show ?thesis by simp
  qed
  from rest whole show ?thesis
    by (simp add: list_all_iff)
qed

text \<open>
  The sample request: its path starts (75, 75), (75.6, 75), both on the surface.
\<close>

theorem path_points_on_surface_witness:
  "noRadiansOverflow (angleInDegrees scenarioRequest) \<and>
   2 * ballRadius DEFAULT_CONFIG < tableWidth scenarioRequest \<and>
   2 * ballRadius DEFAULT_CONFIG < tableHeight scenarioRequest \<and>
   \<lparr>x = 378 / 5, y = 75\<rparr> \<in> set (tl (getPredictedPath scenarioRequest)) \<and>
   onSurface 8 300 150 \<lparr>x = 378 / 5, y = 75\<rparr> \<and>
   \<lparr>x = 75, y = 75\<rparr> \<in> set (getPredictedPath scenarioRequest) \<and>
   onSurface 8 300 150 \<lparr>x = 75, y = 75\<rparr>"
proof -
  obtain ys where ys: "getPredictedPath scenarioRequest =
      \<lparr>x = 75, y = 75\<rparr> # \<lparr>x = 378 / 5, y = 75\<rparr> # ys"
    using scenario_first_step by blast
  have "0 \<le> MAX_VALUE"
    unfolding MAX_VALUE_def by (intro mult_nonneg_nonneg) simp_all
  then have angle: "noRadiansOverflow (angleInDegrees scenarioRequest)"
    by (simp add: scenarioRequest_def)
  have sane: "2 * ballRadius DEFAULT_CONFIG < tableWidth scenarioRequest"
    "2 * ballRadius DEFAULT_CONFIG < tableHeight scenarioRequest"
    by (simp_all add: DEFAULT_CONFIG_def scenarioRequest_def)
  have r: "ballRadius DEFAULT_CONFIG = 8" "tableWidth scenarioRequest = 300"
    "tableHeight scenarioRequest = 150"
    by (simp_all add: DEFAULT_CONFIG_def scenarioRequest_def)
  from path_points_on_surface [OF angle sane] angle sane show ?thesis
    unfolding ys r by (simp add: onSurface_def)
qed

section \<open>The legacy helpers\<close>

text \<open>
  Claim C9, as stated, fails for two of its three pairs. \<open>calculateAngle\<close> returns
  the angle in radians, \<open>calculateAngleBetweenPoints\<close> in degrees: from (0, 0) to
  (1, 1) the first gives \<open>\<pi>/4\<close>, the second 45. \<open>normalizeAngleOld\<close> works in
  radians, \<open>normalizeAngle\<close> in degrees: on -1 the first returns \<open>2\<pi> - 1\<close>, the
  second 359.
\<close>

theorem legacy_helpers_counterexample:
  "calculateAngle \<lparr>x = 0, y = 0\<rparr> \<lparr>x = 1, y = 1\<rparr> = pi / 4 \<and>
   calculateAngleBetweenPoints \<lparr>x = 0, y = 0\<rparr> \<lparr>x = 1, y = 1\<rparr> = 45 \<and>
   calculateAngle \<lparr>x = 0, y = 0\<rparr> \<lparr>x = 1, y = 1\<rparr> \<noteq>
     calculateAngleBetweenPoints \<lparr>x = 0, y = 0\<rparr> \<lparr>x = 1, y = 1\<rparr> \<and>
   normalizeAngleOld (- 1) = Some (2 * pi - 1) \<and>
   normalizeAngle (- 1) = 359 \<and>
   normalizeAngleOld (- 1) \<noteq> Some (normalizeAngle (- 1))"
proof -
  have a1: "calculateAngle \<lparr>x = 0, y = 0\<rparr> \<lparr>x = 1, y = 1\<rparr> = pi / 4"
    by (simp add: calculateAngle_def atan2_def arctan_one)
  have a2: "calculateAngleBetweenPoints \<lparr>x = 0, y = 0\<rparr> \<lparr>x = 1, y = 1\<rparr> = 45"
    by (simp add: calculateAngleBetweenPoints_def atan2_def arctan_one)
  have a3: "pi / 4 \<noteq> 45" using pi_less_4 by simp
  have pos: "\<not> - 1 + 2 * pi < 0" using pi_ge_two by simp
  have "raiseAngle (- 1) = raiseAngle (- 1 + 2 * pi)"
    by (subst raiseAngle.simps) simp
  also have "\<dots> = Some (- 1 + 2 * pi)"
    using pos by (subst raiseAngle.simps) simp
  finally have up: "raiseAngle (- 1) = Some (2 * pi - 1)" by simp
  have down: "lowerAngle (2 * pi - 1) = Some (2 * pi - 1)"
    by (subst lowerAngle.simps) simp
  have n1: "normalizeAngleOld (- 1) = Some (2 * pi - 1)"
    by (simp add: normalizeAngleOld_def up down)
  have c: "\<lceil>- (1 / 360) :: real\<rceil> = 0"
    by (rule ceiling_unique) simp_all
  have n2: "normalizeAngle (- 1) = 359"
    by (simp add: normalizeAngle_def jsRemainder_def c)
  have n3: "2 * pi - 1 \<noteq> 359" using pi_less_4 by simp
  show ?thesis
    unfolding a1 a2 n1 n2 using a3 n3 by simp
qed

text \<open>
  Claim C9, amended. \<open>calculateDistanceOld\<close> equals \<open>calculateDistance\<close> on every
  input. \<open>calculateAngle\<close> is the same \<open>atan2\<close> angle in radians of which
  \<open>calculateAngleBetweenPoints\<close> returns the degrees: the second is the first times 180,
  divided by \<open>\<pi>\<close>. Nothing is stated for the pair of normalisers.
\<close>

theorem legacy_helpers_relation:
  "calculateDistanceOld p q = calculateDistance p q \<and>
   calculateAngleBetweenPoints p q = (calculateAngle p q * 180) / pi"
  by (simp add: calculateDistanceOld_def calculateDistance_def
      calculateAngleBetweenPoints_def calculateAngle_def Let_def)

end
